theory Spec2Isabelle
  imports Main "HOL-Library.Char_ord" "HOL-Library.List_Lexorder" "HOL-Library.Word"
    "HOL-Library.Sublist" "HOL-Library.AList"
begin

section \<open>Strings and paths (the parts of Go's strings and path/filepath the code calls)\<close>

text \<open>Go strings are byte sequences; \<open>sort.Strings\<close> and \<open><\<close> compare them
  bytewise, which is the lexicographic order on \<open>char list\<close>.\<close>

definition sep :: char where
  "sep = CHR ''/''"

text \<open>\<open>strings.Split(s, "/")\<close>: the empty string gives one empty field.\<close>

fun splitSlash :: "string \<Rightarrow> string list" where
  "splitSlash [] = [[]]"
| "splitSlash (c # cs) =
     (if c = sep then [] # splitSlash cs
      else (case splitSlash cs of
              s # ss \<Rightarrow> (c # s) # ss
            | [] \<Rightarrow> [[c]]))"

text \<open>\<open>strings.Join(elems, "/")\<close>.\<close>

fun joinSlash :: "string list \<Rightarrow> string" where
  "joinSlash [] = []"
| "joinSlash [s] = s"
| "joinSlash (s # t # ss) = s @ sep # joinSlash (t # ss)"

text \<open>
  \<open>filepath.Clean\<close>, element by element: \<open>out\<close> is the output buffer as a stack of
  elements (last element first). Empty and \<open>.\<close> elements are dropped; \<open>..\<close> removes
  the last real element, is kept when the path is not rooted and nothing is left to
  remove, and is dropped at the root.
\<close>

fun cleanSegs :: "bool \<Rightarrow> string list \<Rightarrow> string list \<Rightarrow> string list" where
  "cleanSegs rooted out [] = rev out"
| "cleanSegs rooted out (s # ss) =
     (if s = [] \<or> s = ''.'' then cleanSegs rooted out ss
      else if s = ''..'' then
        (case out of
           t # ts \<Rightarrow>
             if t \<noteq> ''..'' then cleanSegs rooted ts ss
             else cleanSegs rooted (''..'' # out) ss
         | [] \<Rightarrow>
             if rooted then cleanSegs rooted [] ss
             else cleanSegs rooted [''..''] ss)
      else cleanSegs rooted (s # out) ss)"

definition Clean :: "string \<Rightarrow> string" where
  "Clean path =
     (if path = [] then ''.''
      else
        let rooted = (hd path = sep);
            segs = cleanSegs rooted [] (splitSlash path)
        in if rooted then sep # joinSlash segs
           else if segs = [] then ''.''
           else joinSlash segs)"

text \<open>\<open>filepath.Join\<close>: leading empty elements are skipped, the rest is joined with
  slashes and cleaned; all elements empty gives the empty string.\<close>

definition Join :: "string list \<Rightarrow> string" where
  "Join elem =
     (case dropWhile (\<lambda>e. e = []) elem of
        [] \<Rightarrow> []
      | rest \<Rightarrow> Clean (joinSlash rest))"

text \<open>\<open>filepath.Dir\<close>: everything up to and including the last slash, cleaned.\<close>

definition Dir :: "string \<Rightarrow> string" where
  "Dir path = Clean (rev (dropWhile (\<lambda>c. c \<noteq> sep) (rev path)))"

text \<open>\<open>strings.HasPrefix\<close> is \<^const>\<open>prefix\<close>; \<open>strings.TrimPrefix\<close> and
  \<open>strings.Index(s, "/")\<close> followed by \<open>s[:i]\<close>:\<close>

definition TrimPrefix :: "string \<Rightarrow> string \<Rightarrow> string" where
  "TrimPrefix s pre = (if prefix pre s then drop (length pre) s else s)"

definition uptoSlash :: "string \<Rightarrow> string" where
  "uptoSlash s = takeWhile (\<lambda>c. c \<noteq> sep) s"

section \<open>File fingerprints and the diff engine (populate/deref.go)\<close>

text \<open>
  A git object id is a 20-byte array; \<open>sha1\<close> is a pointer that may be nil.
  Go maps with string keys are modelled as association lists with distinct keys: the
  order of the list is the (unspecified) iteration order of \<open>range\<close>.
\<close>

type_synonym oid = "8 word list"

record fileInfo =
  sha1 :: "oid option"
  isLink :: bool

type_synonym infos = "(string \<times> fileInfo) list"

text \<open>The body of the \<open>for path, info := range newInfos\<close> loop of \<open>changedFiles\<close>:
  whether the path is appended to \<open>changed\<close>.\<close>

definition isChanged :: "infos \<Rightarrow> string \<Rightarrow> fileInfo \<Rightarrow> bool" where
  "isChanged oldInfos path info =
     (case map_of oldInfos path of
        None \<Rightarrow> True
      | Some old \<Rightarrow>
          if isLink info then False
          else (case (sha1 old, sha1 info) of
                  (Some a, Some b) \<Rightarrow> a \<noteq> b
                | _ \<Rightarrow> True))"

fun changedLoop :: "infos \<Rightarrow> infos \<Rightarrow> string list" where
  "changedLoop oldInfos [] = []"
| "changedLoop oldInfos ((path, info) # rest) =
     (if isChanged oldInfos path info then path # changedLoop oldInfos rest
      else changedLoop oldInfos rest)"

definition changedFiles :: "infos \<Rightarrow> infos \<Rightarrow> string list" where
  "changedFiles oldInfos newInfos = sort (changedLoop oldInfos newInfos)"


section \<open>The repository tree and its builders (populate/deref.go)\<close>

text \<open>A \<open>repoTree\<close> holds the nested repositories (\<open>children\<close>) and the files of
  this repository (\<open>entries\<close>), both Go maps keyed by relative path.\<close>

datatype repoTree =
  RepoTree (children: "(string \<times> repoTree) list") (entries: "(string \<times> fileInfo) list")

definition makeRepoTree :: repoTree where
  "makeRepoTree = RepoTree [] []"

text \<open>\<open>allChildren\<close>: all repositories, the receiver included, keyed by relative path.
  The inner loop is \<open>r[filepath.Join(nm, sub)] = subCh\<close>.\<close>

fun allChildren :: "repoTree \<Rightarrow> (string \<times> repoTree) list"
  and allChildrenLoop ::
    "(string \<times> repoTree) list \<Rightarrow> (string \<times> repoTree) list \<Rightarrow> (string \<times> repoTree) list"
where
  "allChildren (RepoTree chs es) = allChildrenLoop [([], RepoTree chs es)] chs"
| "allChildrenLoop r [] = r"
| "allChildrenLoop r ((nm, ch) # rest) =
     allChildrenLoop
       (foldl (\<lambda>r' (sub, subCh). AList.update (Join [nm, sub]) subCh r') r (allChildren ch))
       rest"

text \<open>\<open>allFiles\<close>: all the files below this tree, keyed by the joined path.\<close>

fun allFiles :: "repoTree \<Rightarrow> infos"
  and allFilesLoop :: "infos \<Rightarrow> (string \<times> repoTree) list \<Rightarrow> infos"
where
  "allFiles (RepoTree chs es) =
     allFilesLoop (foldl (\<lambda>r (nm, info). AList.update nm info r) [] es) chs"
| "allFilesLoop r [] = r"
| "allFilesLoop r ((nm, ch) # rest) =
     allFilesLoop
       (foldl (\<lambda>r' (sub, subCh). AList.update (Join [nm, sub]) subCh r') r (allFiles ch))
       rest"

text \<open>
  \<open>findParentRepo\<close> returns a pointer into the tree and the residual path. The pointer
  is modelled by the route to it: the keys of the children passed on the way down.
\<close>

fun findParentRepo :: "repoTree \<Rightarrow> string \<Rightarrow> string list \<times> string"
  and findParentLoop :: "(string \<times> repoTree) list \<Rightarrow> string \<Rightarrow> (string list \<times> string) option"
where
  "findParentRepo (RepoTree chs es) path =
     (case findParentLoop chs path of
        Some r \<Rightarrow> r
      | None \<Rightarrow> ([], path))"
| "findParentLoop [] path = None"
| "findParentLoop ((k, ch) # rest) path =
     (if prefix (k @ [sep]) path then
        (case findParentRepo ch (drop (length (k @ [sep])) path) of
           (route, key) \<Rightarrow> Some (k # route, key))
      else findParentLoop rest path)"

text \<open>\<open>parent.children[key] = childTree\<close> for the parent at the end of a route.\<close>

fun setChild :: "string list \<Rightarrow> string \<Rightarrow> repoTree \<Rightarrow> repoTree \<Rightarrow> repoTree" where
  "setChild [] key c (RepoTree chs es) = RepoTree (AList.update key c chs) es"
| "setChild (k # route) key c (RepoTree chs es) =
     RepoTree (AList.map_entry k (setChild route key c) chs) es"

text \<open>The parsed manifest, as \<open>manifest.ParseFile\<close> returns it: the fields of a
  project that the builders read.\<close>

record project =
  Path :: string
  Copyfile :: "string list"
  Linkfile :: "string list"

type_synonym manifest = "project list"

datatype error =
  ManifestError | ReadError | JSONError | OidError | WalkError | LinkError | ReadDirError
  | RelError | NilPanic | XattrError

text \<open>Projects grouped by the number of path elements, shallowest first, in manifest
  order within one depth (\<open>byDepth\<close>).\<close>

definition depthOf :: "project \<Rightarrow> nat" where
  "depthOf p = length (splitSlash (Path p))"

definition byDepth :: "manifest \<Rightarrow> project list" where
  "byDepth mf =
     concat (map (\<lambda>l. filter (\<lambda>p. depthOf p = l) mf) [0 ..< Suc (fold max (map depthOf mf) 0)])"

definition addProject :: "repoTree \<Rightarrow> project \<Rightarrow> repoTree" where
  "addProject root p =
     (case findParentRepo root (Path p) of
        (route, key) \<Rightarrow> setChild route key makeRepoTree root)"

definition addDests :: "repoTree \<Rightarrow> project \<Rightarrow> repoTree" where
  "addDests root p =
     (case root of RepoTree chs es \<Rightarrow>
        RepoTree chs
          (foldl (\<lambda>r d. AList.update d \<lparr>sha1 = None, isLink = False\<rparr> r) es
             (Copyfile p @ Linkfile p)))"

definition repoTreeFromManifest :: "manifest option \<Rightarrow> error + repoTree" where
  "repoTreeFromManifest parsed =
     (case parsed of
        None \<Rightarrow> Inl ManifestError
      | Some mf \<Rightarrow> Inr (foldl addDests (foldl addProject makeRepoTree (byDepth mf)) mf))"



text \<open>
  The read-only mount as the builders see it: what \<open>manifest.ParseFile\<close> returns for
  a file name (\<open>None\<close> for an error) and what reading and unmarshalling a
  \<open>tree.json\<close> gives.
\<close>

record treeEntry =
  Name :: string
  ID :: string
  Target :: "string option"

datatype treeFile = NoFile | BadJSON | Tree "treeEntry list"

record roFS =
  manifestXml :: "string \<Rightarrow> manifest option"
  treeJson :: "string \<Rightarrow> treeFile"

text \<open>\<open>git.NewOid\<close>: the string must be 40 hexadecimal digits, which decode to the 20
  bytes of the id.\<close>

definition hexVal :: "char \<Rightarrow> nat option" where
  "hexVal c =
     (let n = of_char c :: nat in
      if 48 \<le> n \<and> n \<le> 57 then Some (n - 48)
      else if 97 \<le> n \<and> n \<le> 102 then Some (n - 87)
      else if 65 \<le> n \<and> n \<le> 70 then Some (n - 55)
      else None)"

fun hexDecode :: "string \<Rightarrow> oid option" where
  "hexDecode [] = Some []"
| "hexDecode [c] = None"
| "hexDecode (c # d # rest) =
     (case (hexVal c, hexVal d, hexDecode rest) of
        (Some h, Some l, Some bs) \<Rightarrow> Some (of_nat (16 * h + l) # bs)
      | _ \<Rightarrow> None)"

definition NewOid :: "string \<Rightarrow> oid option" where
  "NewOid s =
     (if length s > 40 then None
      else (case hexDecode s of
              None \<Rightarrow> None
            | Some bs \<Rightarrow> if length bs \<noteq> 20 then None else Some bs))"

text \<open>The loop over \<open>tree.Entries\<close>: the first malformed id returns the error, with
  the entries stored so far.\<close>

fun fillEntries :: "infos \<Rightarrow> treeEntry list \<Rightarrow> error option \<times> infos" where
  "fillEntries es [] = (None, es)"
| "fillEntries es (e # rest) =
     (case NewOid (ID e) of
        None \<Rightarrow> (Some OidError, es)
      | Some oid \<Rightarrow>
          fillEntries (AList.update (Name e) \<lparr>sha1 = Some oid, isLink = (Target e \<noteq> None)\<rparr> es) rest)"

text \<open>
  \<open>fillFromSlothFS\<close> mutates the receiver and returns an error or nil: the model returns
  both the error and the tree as it stands. The loop over the children calls
  \<open>v.fillFromSlothFS(filepath.Join(dir, k))\<close> as a statement: what the call returns
  is dropped (\<^const>\<open>snd\<close>).
\<close>

fun fillFromSlothFS :: "roFS \<Rightarrow> string \<Rightarrow> repoTree \<Rightarrow> error option \<times> repoTree"
  and fillChildren :: "roFS \<Rightarrow> string \<Rightarrow> (string \<times> repoTree) list \<Rightarrow> (string \<times> repoTree) list"
where
  "fillFromSlothFS fs dir (RepoTree chs es) =
     (case treeJson fs (Join [dir, ''.slothfs'', ''tree.json'']) of
        NoFile \<Rightarrow> (Some ReadError, RepoTree chs es)
      | BadJSON \<Rightarrow> (Some JSONError, RepoTree chs es)
      | Tree ents \<Rightarrow>
          (case fillEntries es ents of
             (Some e, es') \<Rightarrow> (Some e, RepoTree chs es')
           | (None, es') \<Rightarrow> (None, RepoTree (fillChildren fs dir chs) es')))"
| "fillChildren fs dir [] = []"
| "fillChildren fs dir ((k, v) # rest) =
     (k, snd (fillFromSlothFS fs (Join [dir, k]) v)) # fillChildren fs dir rest"

definition repoTreeFromSlothFS :: "roFS \<Rightarrow> string \<Rightarrow> error + repoTree" where
  "repoTreeFromSlothFS fs dir =
     (case repoTreeFromManifest (manifestXml fs (Join [dir, ''.slothfs'', ''manifest.xml''])) of
        Inl e \<Rightarrow> Inl e
      | Inr root \<Rightarrow>
          (case fillFromSlothFS fs dir root of
             (Some e, t) \<Rightarrow> Inl e
           | (None, t) \<Rightarrow> Inr t))"



section \<open>Checkout's last loop\<close>

text \<open>\<open>for i, p := range changed { changed[i] = filepath.Join(ro, p) }\<close>\<close>

definition joinChanged :: "string \<Rightarrow> string list \<Rightarrow> string list" where
  "joinChanged ro changed = map (\<lambda>p. Join [ro, p]) changed"

text \<open>
  The paths of a git tree listing are clean relative paths: slash-separated elements,
  none of them empty, \<open>.\<close> or \<open>..\<close>.
\<close>

definition normalSeg :: "string \<Rightarrow> bool" where
  "normalSeg s \<longleftrightarrow> s \<noteq> [] \<and> s \<noteq> ''.'' \<and> s \<noteq> ''..''"

definition cleanRel :: "string \<Rightarrow> bool" where
  "cleanRel p \<longleftrightarrow> list_all normalSeg (splitSlash p)"

text \<open>What \<open>filepath.Join(ro, p)\<close> puts in front of a clean relative \<open>p\<close>.\<close>

definition joinPrefix :: "string \<Rightarrow> string" where
  "joinPrefix ro =
     (if ro = [] then []
      else
        let rooted = (hd ro = sep);
            X = cleanSegs rooted [] (splitSlash ro)
        in (if rooted then [sep] else []) @ (if X = [] then [] else joinSlash X @ [sep]))"

section \<open>The writable directory\<close>

text \<open>
  The writable directory is a tree of regular files, symbolic links and directories. A
  directory lists its entries by name; the list is kept in the order \<open>ReadDir\<close> and
  \<open>filepath.Walk\<close> visit it, sorted by name. A place in the tree is the list of names
  leading to it from the root of the writable directory.
\<close>

datatype node = File | Symlink string | Dirn "(string \<times> node) list"



fun lookupNode :: "node \<Rightarrow> string list \<Rightarrow> node option" where
  "lookupNode n [] = Some n"
| "lookupNode (Dirn chs) (s # ss) =
     (case map_of chs s of
        None \<Rightarrow> None
      | Some ch \<Rightarrow> lookupNode ch ss)"
| "lookupNode File (s # ss) = None"
| "lookupNode (Symlink t) (s # ss) = None"

text \<open>Adding an entry to a directory listing keeps it sorted by name.\<close>

fun insertEntry :: "string \<Rightarrow> node \<Rightarrow> (string \<times> node) list \<Rightarrow> (string \<times> node) list" where
  "insertEntry s n [] = [(s, n)]"
| "insertEntry s n ((k, v) # rest) =
     (if s < k then (s, n) # (k, v) # rest
      else if s = k then (s, n) # rest
      else (k, v) # insertEntry s n rest)"

text \<open>
  What lies outside the writable directory is not part of the state. The world answers
  for it: the parsed metadata of the read-only mount, whether \<open>os.Stat\<close> of a path that
  leads through a symbolic link finds a directory, whether creating an entry behind a
  symbolic link succeeds, the order in which \<open>range\<close> visits the keys of a map, and
  the \<open>user.gitsha1\<close> extended attribute of a file (\<open>None\<close> when \<open>Getxattr\<close> fails).
\<close>

record world =
  mount :: roFS
  extIsDir :: "string \<Rightarrow> bool"
  extWritable :: "string \<Rightarrow> bool"
  rangeOrder :: "string list \<Rightarrow> string list"
  xattr :: "string \<Rightarrow> string option"

text \<open>\<open>getSHA1\<close>: the fingerprint of the receiver, read from the attribute into a buffer
  of 40 bytes (\<open>Getxattr\<close> fails when the value is longer) and stored in the receiver
  when it is not there yet.\<close>

definition getSHA1 :: "world \<Rightarrow> fileInfo \<Rightarrow> string \<Rightarrow> (error + oid) \<times> fileInfo" where
  "getSHA1 w fi fn =
     (case sha1 fi of
        Some oid \<Rightarrow> (Inr oid, fi)
      | None \<Rightarrow>
          (case xattr w fn of
             None \<Rightarrow> (Inl XattrError, fi)
           | Some data \<Rightarrow>
               if 40 < length data then (Inl XattrError, fi)
               else
                 (case NewOid data of
                    None \<Rightarrow> (Inl OidError, fi)
                  | Some oid \<Rightarrow> (Inr oid, fi\<lparr>sha1 := Some oid\<rparr>))))"

section \<open>The link cleaner (clearLinks)\<close>

text \<open>
  The state of the walk: \<open>prefix\<close>, and \<open>dirs\<close> with each collected path string paired
  with the place it names. \<open>walk\<close> follows \<open>filepath.Walk\<close>: the callback on the node
  itself, then the entries of a directory in order, each under
  \<open>filepath.Join(path, name)\<close>. The callback removes a link whose target begins with
  \<open>mnt\<close>: the walk returns \<open>None\<close> for an entry that is gone.
\<close>

record walkState =
  wprefix :: string
  wdirs :: "(string \<times> string list) list"

fun walk :: "string \<Rightarrow> string \<Rightarrow> string \<Rightarrow> string list \<Rightarrow> node \<Rightarrow> walkState
               \<Rightarrow> walkState \<times> node option"
  and walkEntries :: "string \<Rightarrow> string \<Rightarrow> string \<Rightarrow> string list \<Rightarrow> (string \<times> node) list
               \<Rightarrow> walkState \<Rightarrow> walkState \<times> (string \<times> node) list"
where
  "walk mnt dir n pos File st = (st, Some File)"
| "walk mnt dir n pos (Symlink target) st =
     (if prefix mnt target then (st\<lparr>wprefix := target\<rparr>, None)
      else (st, Some (Symlink target)))"
| "walk mnt dir n pos (Dirn chs) st =
     (let st1 = (if n \<noteq> dir then st\<lparr>wdirs := wdirs st @ [(n, pos)]\<rparr> else st);
          (st2, chs') = walkEntries mnt dir n pos chs st1
      in (st2, Some (Dirn chs')))"
| "walkEntries mnt dir n pos [] st = (st, [])"
| "walkEntries mnt dir n pos ((name, ch) # rest) st =
     (let (st1, r) = walk mnt dir (Join [n, name]) (pos @ [name]) ch st;
          (st2, rest') = walkEntries mnt dir n pos rest st1
      in (st2, (case r of None \<Rightarrow> rest' | Some ch' \<Rightarrow> (name, ch') # rest')))"

text \<open>\<open>os.Remove(d)\<close> on a collected directory: it goes when it is empty, and the
  error is ignored when it is not.\<close>

fun removeEmptyDir :: "string list \<Rightarrow> node \<Rightarrow> node" where
  "removeEmptyDir [] n = n"
| "removeEmptyDir [s] (Dirn chs) =
     (if map_of chs s = Some (Dirn []) then Dirn (filter (\<lambda>(k, v). k \<noteq> s) chs)
      else Dirn chs)"
| "removeEmptyDir (s # t # ss) (Dirn chs) =
     Dirn (map (\<lambda>(k, v). if k = s then (k, removeEmptyDir (t # ss) v) else (k, v)) chs)"
| "removeEmptyDir (s # ss) File = File"
| "removeEmptyDir (s # ss) (Symlink t) = Symlink t"

text \<open>
  \<open>clearLinks\<close>. \<open>Walk\<close> calls the callback with a nil \<open>FileInfo\<close> when \<open>Lstat(dir)\<close>
  fails (\<open>None\<close> for the root): that is the one error of the model. The directories are
  sorted as strings and removed from the last to the first.
\<close>

definition workspaceName :: "string \<Rightarrow> string \<Rightarrow> string" where
  "workspaceName mnt pre = uptoSlash (TrimPrefix pre (mnt @ [sep]))"

definition removeDirs :: "(string \<times> string list) list \<Rightarrow> node \<Rightarrow> node" where
  "removeDirs dirs n = foldl (\<lambda>t (d, pos). removeEmptyDir pos t) n (rev (sort_key fst dirs))"

definition clearLinks :: "string \<Rightarrow> string \<Rightarrow> node option \<Rightarrow> (error + string) \<times> node option" where
  "clearLinks mnt0 dir root =
     (let mnt = Clean mnt0 in
      case root of
        None \<Rightarrow> (Inl WalkError, None)
      | Some n \<Rightarrow>
          (case walk mnt dir dir [] n \<lparr>wprefix = [], wdirs = []\<rparr> of
             (st, r) \<Rightarrow>
               (Inr (workspaceName mnt (wprefix st)), map_option (removeDirs (wdirs st)) r)))"

section \<open>Reading the writable directory (newRepoTree)\<close>

text \<open>\<open>os.Stat\<close> of an entry of a listing: a directory, or a link behind which the world
  has a directory.\<close>

definition statEntryIsDir :: "world \<Rightarrow> string \<Rightarrow> (string \<times> node) list \<Rightarrow> string \<Rightarrow> bool" where
  "statEntryIsDir w path chs name =
     (case map_of chs name of
        None \<Rightarrow> False
      | Some File \<Rightarrow> False
      | Some (Symlink t) \<Rightarrow> extIsDir w (Join [path, name])
      | Some (Dirn cs) \<Rightarrow> True)"

definition isRepoDir :: "world \<Rightarrow> string \<Rightarrow> (string \<times> node) list \<Rightarrow> bool" where
  "isRepoDir w path chs =
     (if statEntryIsDir w path chs ''.git'' then True
      else if statEntryIsDir w path chs ''.slothfs'' then True
      else False)"

text \<open>
  \<open>fill\<close> reads the listing \<open>ents\<close> of \<open>filepath.Join(repoRoot, dir)\<close> into \<open>parent\<close>. A
  directory that is a repository becomes a child, filled from its own root (the
  goroutines of \<open>todo\<close>: each fills a tree of its own); any other directory is read
  into \<open>parent\<close>; anything else is an entry with no fingerprint.
\<close>

fun fill :: "world \<Rightarrow> string \<Rightarrow> string \<Rightarrow> (string \<times> node) list \<Rightarrow> repoTree \<Rightarrow> repoTree" where
  "fill w repoRoot dir [] parent = parent"
| "fill w repoRoot dir ((name, File) # rest) parent =
     fill w repoRoot dir rest
       (RepoTree (children parent)
          (AList.update (Join [dir, name]) \<lparr>sha1 = None, isLink = False\<rparr> (entries parent)))"
| "fill w repoRoot dir ((name, Symlink t) # rest) parent =
     fill w repoRoot dir rest
       (RepoTree (children parent)
          (AList.update (Join [dir, name]) \<lparr>sha1 = None, isLink = False\<rparr> (entries parent)))"
| "fill w repoRoot dir ((name, Dirn cs) # rest) parent =
     (if name = ''.git'' \<or> name = ''.slothfs'' then fill w repoRoot dir rest parent
      else if name = ''out'' \<and> dir = [] then fill w repoRoot dir rest parent
      else
        let subName = Join [dir, name];
            newRoot = Join [repoRoot, subName]
        in if isRepoDir w newRoot cs then
             fill w repoRoot dir rest
               (RepoTree (AList.update subName (fill w newRoot [] cs makeRepoTree) (children parent))
                  (entries parent))
           else fill w repoRoot dir rest (fill w repoRoot subName cs parent))"

definition newRepoTree :: "world \<Rightarrow> string \<Rightarrow> node option \<Rightarrow> error + repoTree" where
  "newRepoTree w dir root =
     (case root of
        Some (Dirn cs) \<Rightarrow> Inr (fill w dir [] cs makeRepoTree)
      | _ \<Rightarrow> Inl ReadDirError)"

section \<open>Creating directories and links\<close>

text \<open>
  The operations take the path string the code passes and the place it names.
  \<open>os.Stat(path)\<close> is a directory when the place holds one; when the way to the place
  leads through a symbolic link the world answers.
\<close>

fun statIsDir :: "world \<Rightarrow> string \<Rightarrow> node \<Rightarrow> string list \<Rightarrow> bool" where
  "statIsDir w path (Dirn chs) [] = True"
| "statIsDir w path File ss = False"
| "statIsDir w path (Symlink t) ss = extIsDir w path"
| "statIsDir w path (Dirn chs) (s # ss) =
     (case map_of chs s of
        None \<Rightarrow> False
      | Some ch \<Rightarrow> statIsDir w path ch ss)"

text \<open>A chain of new, empty directories below a new entry.\<close>

fun newDirs :: "string list \<Rightarrow> node" where
  "newDirs [] = Dirn []"
| "newDirs (s # ss) = Dirn [(s, newDirs ss)]"

text \<open>
  \<open>os.MkdirAll(path, 0755)\<close>: nothing to do where a directory is, an error where a
  file is in the way, new directories for the elements that are missing. Behind a
  symbolic link the world decides, and the writable tree stays as it is.
\<close>

fun mkdirAll :: "world \<Rightarrow> string \<Rightarrow> node \<Rightarrow> string list \<Rightarrow> error + node" where
  "mkdirAll w path (Dirn chs) [] = Inr (Dirn chs)"
| "mkdirAll w path File ss = Inl LinkError"
| "mkdirAll w path (Symlink t) [] =
     (if extIsDir w path then Inr (Symlink t) else Inl LinkError)"
| "mkdirAll w path (Symlink t) (s # ss) =
     (if extIsDir w path \<or> extWritable w path then Inr (Symlink t) else Inl LinkError)"
| "mkdirAll w path (Dirn chs) (s # ss) =
     (case map_of chs s of
        None \<Rightarrow> Inr (Dirn (insertEntry s (newDirs ss) chs))
      | Some ch \<Rightarrow>
          (case mkdirAll w path ch ss of
             Inl e \<Rightarrow> Inl e
           | Inr ch' \<Rightarrow> Inr (Dirn (insertEntry s ch' chs))))"

text \<open>
  \<open>os.Symlink(target, path)\<close>: the directory of the new link must exist and the name
  must be free.
\<close>

fun symlinkAt :: "world \<Rightarrow> string \<Rightarrow> string \<Rightarrow> node \<Rightarrow> string list \<Rightarrow> error + node" where
  "symlinkAt w target path n [] = Inl LinkError"
| "symlinkAt w target path File (s # ss) = Inl LinkError"
| "symlinkAt w target path (Symlink t) (s # ss) =
     (if extWritable w path then Inr (Symlink t) else Inl LinkError)"
| "symlinkAt w target path (Dirn chs) [s] =
     (case map_of chs s of
        None \<Rightarrow> Inr (Dirn (insertEntry s (Symlink target) chs))
      | Some ch \<Rightarrow> Inl LinkError)"
| "symlinkAt w target path (Dirn chs) (s # t # ss) =
     (case map_of chs s of
        None \<Rightarrow> Inl LinkError
      | Some ch \<Rightarrow>
          (case symlinkAt w target path ch (t # ss) of
             Inl e \<Rightarrow> Inl e
           | Inr ch' \<Rightarrow> Inr (Dirn (insertEntry s ch' chs))))"

text \<open>
  The place a path names: \<open>filepath.Join\<close> cleans the joined elements, so the place of
  \<open>Join(root, x)\<close> is found from the place of \<open>root\<close> by cleaning on. A path that climbs
  out of the writable directory names no place.
\<close>

definition placeOf :: "string list \<Rightarrow> string list \<Rightarrow> string list option" where
  "placeOf pos elems =
     (let segs = cleanSegs False (rev pos) (concat (map splitSlash elems))
      in if ''..'' \<in> set segs then None else Some segs)"

definition doMkdirAll :: "world \<Rightarrow> string \<Rightarrow> string list option \<Rightarrow> node \<Rightarrow> error + node" where
  "doMkdirAll w path place n =
     (case place of
        None \<Rightarrow> Inl LinkError
      | Some pos \<Rightarrow> mkdirAll w path n pos)"

definition doSymlink :: "world \<Rightarrow> string \<Rightarrow> string \<Rightarrow> string list option \<Rightarrow> node \<Rightarrow> error + node" where
  "doSymlink w target path place n =
     (case place of
        None \<Rightarrow> Inl LinkError
      | Some pos \<Rightarrow> symlinkAt w target path n pos)"

text \<open>\<open>os.MkdirAll(filepath.Dir(dest), 0755)\<close> followed by \<open>os.Symlink(target, dest)\<close>,
  as both link sites do. The first error ends it, with the tree as it stands.\<close>

definition linkInto :: "world \<Rightarrow> string \<Rightarrow> string \<Rightarrow> string list option \<Rightarrow> node \<Rightarrow> error option \<times> node" where
  "linkInto w target dest place n =
     (case doMkdirAll w (Dir dest) (map_option butlast place) n of
        Inl e \<Rightarrow> (Some e, n)
      | Inr n1 \<Rightarrow>
          (case doSymlink w target dest place n1 of
             Inl e \<Rightarrow> (Some e, n1)
           | Inr n2 \<Rightarrow> (None, n2)))"

section \<open>The link planner (createTreeLinks, symlinkRepo, createLinks)\<close>

text \<open>
  \<open>filepath.Rel(base, targ)\<close>: both paths are cleaned and compared element by element;
  what is left of the base is climbed with \<open>..\<close>, what is left of the target follows.
  It fails when only one of the two is rooted, or when the base goes on with \<open>..\<close>.
\<close>

definition pathElems :: "string \<Rightarrow> string list" where
  "pathElems s = (if s = [] then [] else if s = [sep] then [[]] else splitSlash s)"

fun dropCommon :: "string list \<Rightarrow> string list \<Rightarrow> string list \<times> string list" where
  "dropCommon (b # bs) (t # ts) = (if b = t then dropCommon bs ts else (b # bs, t # ts))"
| "dropCommon bs ts = (bs, ts)"

definition Rel :: "string \<Rightarrow> string \<Rightarrow> string option" where
  "Rel basepath targpath =
     (let base0 = Clean basepath;
          targ = Clean targpath
      in if targ = base0 then Some ''.''
         else
           let base = (if base0 = ''.'' then [] else base0);
               baseSlashed = (base \<noteq> [] \<and> hd base = sep);
               targSlashed = (targ \<noteq> [] \<and> hd targ = sep)
           in if baseSlashed \<noteq> targSlashed then None
              else (case dropCommon (pathElems base) (pathElems targ) of
                      (br, tr) \<Rightarrow>
                        if br \<noteq> [] \<and> hd br = ''..'' then None
                        else if br \<noteq> [] then Some (joinSlash (replicate (length br) ''..'' @ tr))
                        else Some (joinSlash tr)))"

text \<open>
  The inner loop of \<open>createTreeLinks\<close> over the keys of \<open>allRW\<close>, in the order \<open>range\<close>
  gives them: it stops at the first key that is \<open>nm\<close> itself (\<open>foundRecurse\<close>) or lies
  below \<open>nm\<close> (\<open>foundCheckout\<close>).
\<close>

datatype found = FoundRecurse | FoundCheckout | FoundNothing | FoundError

fun classify :: "string \<Rightarrow> string list \<Rightarrow> found" where
  "classify nm [] = FoundNothing"
| "classify nm (k # ks) =
     (if k = [] then classify nm ks
      else if nm = k then FoundRecurse
      else (case Rel nm k of
              None \<Rightarrow> FoundError
            | Some rel \<Rightarrow>
                if prefix ''..'' rel then classify nm ks
                else FoundCheckout))"

text \<open>
  \<open>createTreeLinks\<close>. \<open>rw.children[nm]\<close> is nil when \<open>rw\<close> has no such key; the
  recursive call then dereferences nil in \<open>rw.allChildren()\<close>. \<open>place\<close> is the place
  \<open>rwRoot\<close> names.
\<close>

fun createTreeLinks ::
    "world \<Rightarrow> repoTree \<Rightarrow> repoTree option \<Rightarrow> string \<Rightarrow> string \<Rightarrow> string list option \<Rightarrow> node
       \<Rightarrow> error option \<times> node"
  and createTreeLinksLoop ::
    "world \<Rightarrow> (string \<times> repoTree) list \<Rightarrow> repoTree \<Rightarrow> string list \<Rightarrow> string \<Rightarrow> string
       \<Rightarrow> string list option \<Rightarrow> node \<Rightarrow> error option \<times> node"
where
  "createTreeLinks w (RepoTree chs es) rwo roRoot rwRoot place n =
     (case rwo of
        None \<Rightarrow> (Some NilPanic, n)
      | Some rw \<Rightarrow>
          createTreeLinksLoop w chs rw (rangeOrder w (map fst (allChildren rw)))
            roRoot rwRoot place n)"
| "createTreeLinksLoop w [] rw allRW roRoot rwRoot place n = (None, n)"
| "createTreeLinksLoop w ((nm, ch) # rest) rw allRW roRoot rwRoot place n =
     (case classify nm allRW of
        FoundError \<Rightarrow> (Some RelError, n)
      | FoundRecurse \<Rightarrow>
          (case createTreeLinks w ch (map_of (children rw) nm)
                  (Join [roRoot, nm]) (Join [rwRoot, nm])
                  (Option.bind place (\<lambda>pos. placeOf pos [nm])) n of
             (Some e, n') \<Rightarrow> (Some e, n')
           | (None, n') \<Rightarrow> createTreeLinksLoop w rest rw allRW roRoot rwRoot place n')
      | FoundCheckout \<Rightarrow> createTreeLinksLoop w rest rw allRW roRoot rwRoot place n
      | FoundNothing \<Rightarrow>
          (case linkInto w (Join [roRoot, nm]) (Join [rwRoot, nm])
                  (Option.bind place (\<lambda>pos. placeOf pos [nm])) n of
             (Some e, n') \<Rightarrow> (Some e, n')
           | (None, n') \<Rightarrow> createTreeLinksLoop w rest rw allRW roRoot rwRoot place n'))"

text \<open>\<open>symlinkRepo\<close>: nothing when \<open>rwRoot/name\<close> is a directory already; else one link
  for each entry of the repository.\<close>

fun symlinkEntries :: "world \<Rightarrow> string \<Rightarrow> string list \<Rightarrow> string \<Rightarrow> string \<Rightarrow> node
    \<Rightarrow> error option \<times> node" where
  "symlinkEntries w name [] roRoot rwRoot n = (None, n)"
| "symlinkEntries w name (e # es) roRoot rwRoot n =
     (case linkInto w (Join [roRoot, name, e]) (Join [rwRoot, name, e]) (placeOf [] [name, e]) n of
        (Some err, n') \<Rightarrow> (Some err, n')
      | (None, n') \<Rightarrow> symlinkEntries w name es roRoot rwRoot n')"

definition statPathIsDir :: "world \<Rightarrow> string \<Rightarrow> string list option \<Rightarrow> node \<Rightarrow> bool" where
  "statPathIsDir w path place n =
     (case place of
        None \<Rightarrow> extIsDir w path
      | Some pos \<Rightarrow> statIsDir w path n pos)"

definition symlinkRepo :: "world \<Rightarrow> string \<Rightarrow> repoTree \<Rightarrow> string \<Rightarrow> string \<Rightarrow> node
    \<Rightarrow> error option \<times> node" where
  "symlinkRepo w name child roRoot rwRoot n =
     (if statPathIsDir w (Join [rwRoot, name]) (placeOf [] [name]) n then (None, n)
      else symlinkEntries w name (map fst (entries child)) roRoot rwRoot n)"

fun symlinkRepos :: "world \<Rightarrow> (string \<times> repoTree) list \<Rightarrow> string list \<Rightarrow> string \<Rightarrow> string \<Rightarrow> node
    \<Rightarrow> error option \<times> node" where
  "symlinkRepos w [] rwc roRoot rwRoot n = (None, n)"
| "symlinkRepos w ((nm, ch) # rest) rwc roRoot rwRoot n =
     (if nm \<in> set rwc then symlinkRepos w rest rwc roRoot rwRoot n
      else (case symlinkRepo w nm ch roRoot rwRoot n of
              (Some e, n') \<Rightarrow> (Some e, n')
            | (None, n') \<Rightarrow> symlinkRepos w rest rwc roRoot rwRoot n'))"

definition createLinks :: "world \<Rightarrow> repoTree \<Rightarrow> repoTree \<Rightarrow> string \<Rightarrow> string \<Rightarrow> node
    \<Rightarrow> error option \<times> node" where
  "createLinks w ro rw roRoot rwRoot n =
     (case createTreeLinks w ro (Some rw) roRoot rwRoot (Some []) n of
        (Some e, n1) \<Rightarrow> (Some e, n1)
      | (None, n1) \<Rightarrow>
          symlinkRepos w (allChildren ro) (map fst (allChildren rw)) roRoot rwRoot n1)"

section \<open>The orchestrator (Checkout)\<close>

text \<open>
  The three builders run in goroutines and only read; \<open>Checkout\<close> returns the first
  error it receives from the channel. Which one that is when several fail is not
  determined; the model takes them in the order prior snapshot, writable directory,
  new snapshot. The result is paired with the writable directory as \<open>Checkout\<close>
  leaves it.
\<close>

definition oldInfosOf :: "world \<Rightarrow> string \<Rightarrow> string \<Rightarrow> error + infos" where
  "oldInfosOf w oldRoot wsName =
     (if wsName \<noteq> [] then
        (case repoTreeFromSlothFS (mount w) oldRoot of
           Inl e \<Rightarrow> Inl e
         | Inr t \<Rightarrow> Inr (allFiles t))
      else Inr [])"

definition Checkout :: "world \<Rightarrow> string \<Rightarrow> string \<Rightarrow> node option
    \<Rightarrow> (error + string list) \<times> node option" where
  "Checkout w ro0 rw root =
     (let ro = Clean ro0 in
      case clearLinks (Dir ro) rw root of
        (Inl e, r1) \<Rightarrow> (Inl e, r1)
      | (Inr wsName, r1) \<Rightarrow>
          (case oldInfosOf w (Join [Dir ro, wsName]) wsName of
             Inl e \<Rightarrow> (Inl e, r1)
           | Inr oldInfos \<Rightarrow>
               (case newRepoTree w rw r1 of
                  Inl e \<Rightarrow> (Inl e, r1)
                | Inr rwTree \<Rightarrow>
                    (case repoTreeFromSlothFS (mount w) ro of
                       Inl e \<Rightarrow> (Inl e, r1)
                     | Inr roTree \<Rightarrow>
                         (case r1 of
                            None \<Rightarrow> (Inl ReadDirError, r1)
                          | Some n \<Rightarrow>
                              (case createLinks w roTree rwTree ro rw n of
                                 (Some e, n') \<Rightarrow> (Inl e, Some n')
                               | (None, n') \<Rightarrow>
                                   (Inr (joinChanged ro (changedFiles oldInfos (allFiles roTree))),
                                    Some n')))))))"

section \<open>What the claims speak of\<close>

text \<open>The targets of the symbolic links of a tree, in the order the walk meets them.\<close>

fun linkTargets :: "node \<Rightarrow> string list" where
  "linkTargets File = []"
| "linkTargets (Symlink t) = [t]"
| "linkTargets (Dirn chs) = concat (map (\<lambda>(k, c). linkTargets c) chs)"

definition lastOr :: "string \<Rightarrow> string list \<Rightarrow> string" where
  "lastOr d ts = (if ts = [] then d else last ts)"

text \<open>The last link target that begins with \<open>mnt\<close>; the empty string when there is none.\<close>

definition lastInto :: "string \<Rightarrow> node \<Rightarrow> string" where
  "lastInto mnt n = lastOr [] (filter (prefix mnt) (linkTargets n))"

text \<open>
  User content: a regular file, or a symbolic link whose target does not begin with the
  mount. \<open>keepsUser mnt n r\<close>: every such file or link of \<open>n\<close> is at its place in \<open>r\<close>;
  \<open>keepsLeaves n n'\<close>: every file and every link of \<open>n\<close> is at its place in \<open>n'\<close>.
\<close>

fun isLeaf :: "node \<Rightarrow> bool" where
  "isLeaf (Dirn chs) = False"
| "isLeaf n = True"


definition keepsLeaves :: "node \<Rightarrow> node \<Rightarrow> bool" where
  "keepsLeaves n n' \<longleftrightarrow>
     (\<forall>q x. lookupNode n q = Some x \<longrightarrow> isLeaf x \<longrightarrow> lookupNode n' q = Some x)"


text \<open>The mount as \<open>Checkout\<close> passes it to \<open>clearLinks\<close>, which cleans it again.\<close>

definition mountOf :: "string \<Rightarrow> string" where
  "mountOf ro = Clean (Dir (Clean ro))"

text \<open>
  The links into the mount of a tree, with the directories that lead to them: what is
  left when the user's files, the user's own links and the directories without a link
  into the mount are taken away. Two trees with the same skeleton differ only in user
  content.
\<close>

fun skeleton :: "string \<Rightarrow> node \<Rightarrow> node option"
  and skeletonEntries :: "string \<Rightarrow> (string \<times> node) list \<Rightarrow> (string \<times> node) list"
where
  "skeleton mnt File = None"
| "skeleton mnt (Symlink t) = (if prefix mnt t then Some (Symlink t) else None)"
| "skeleton mnt (Dirn chs) =
     (case skeletonEntries mnt chs of
        [] \<Rightarrow> None
      | es \<Rightarrow> Some (Dirn es))"
| "skeletonEntries mnt [] = []"
| "skeletonEntries mnt ((k, c) # rest) =
     (case skeleton mnt c of
        None \<Rightarrow> skeletonEntries mnt rest
      | Some c' \<Rightarrow> (k, c') # skeletonEntries mnt rest)"

text \<open>
  The change list as a function of the read-only mount alone: the file map of the prior
  workspace \<open>wsName\<close> (empty for a cold checkout) against the file map of \<open>ro\<close>.
\<close>

definition expectedChanges :: "roFS \<Rightarrow> string \<Rightarrow> string \<Rightarrow> string list option" where
  "expectedChanges fs ro wsName =
     (let old = (if wsName \<noteq> [] then
                   (case repoTreeFromSlothFS fs (Join [Dir (Clean ro), wsName]) of
                      Inl e \<Rightarrow> Inl e
                    | Inr t \<Rightarrow> Inr (allFiles t))
                 else Inr [])
      in case (old, repoTreeFromSlothFS fs (Clean ro)) of
           (Inr oldInfos, Inr roTree) \<Rightarrow>
              Some (joinChanged (Clean ro) (changedFiles oldInfos (allFiles roTree)))
         | _ \<Rightarrow> None)"

section \<open>An example mount\<close>

text \<open>
  Two workspaces \<open>/m/old\<close> and \<open>/m/ws\<close>, each with one project at \<open>a\<close> holding \<open>f1\<close> and
  \<open>f2\<close>; \<open>f2\<close> differs between the two.
\<close>

definition exTree :: "string \<Rightarrow> treeFile" where
  "exTree p =
     (if p = ''/m/old/.slothfs/tree.json'' \<or> p = ''/m/ws/.slothfs/tree.json'' then Tree []
      else if p = ''/m/old/a/.slothfs/tree.json'' then
        Tree [\<lparr>Name = ''f1'', ID = ''787d767f94fd634ed29cd69ec9f93bab2b25f5d4'', Target = None\<rparr>,
              \<lparr>Name = ''f2'', ID = ''91c29720b08211898308eb2b6bde8bd3208c6dcd'', Target = None\<rparr>]
      else if p = ''/m/ws/a/.slothfs/tree.json'' then
        Tree [\<lparr>Name = ''f1'', ID = ''787d767f94fd634ed29cd69ec9f93bab2b25f5d4'', Target = None\<rparr>,
              \<lparr>Name = ''f2'', ID = ''bdea84459e8c5266251248e593c8ba226a535ad2'', Target = None\<rparr>]
      else NoFile)"

definition exMount :: roFS where
  "exMount =
     \<lparr>manifestXml = (\<lambda>p. if p = ''/m/old/.slothfs/manifest.xml'' \<or> p = ''/m/ws/.slothfs/manifest.xml''
                          then Some [\<lparr>Path = ''a'', Copyfile = [], Linkfile = []\<rparr>] else None),
      treeJson = exTree\<rparr>"

definition exWorld :: world where
  "exWorld =
     \<lparr>mount = exMount, extIsDir = (\<lambda>p. True), extWritable = (\<lambda>p. False),
      rangeOrder = (\<lambda>ks. ks), xattr = (\<lambda>p. None)\<rparr>"


text \<open>The world lets no write through a symbolic link out of the writable directory.\<close>

definition noWriteOut :: "world \<Rightarrow> bool" where
  "noWriteOut w \<longleftrightarrow> (\<forall>p. \<not> extWritable w p)"


section \<open>Well-formed names\<close>








text \<open>A workspace whose manifest declares a copyfile with the destination \<open>./z\<close>, which
  \<open>repoTreeFromManifest\<close> stores as it is written.\<close>

definition dotWorld :: world where
  "dotWorld =
     \<lparr>mount =
        \<lparr>manifestXml = (\<lambda>p. if p = ''/m/wd/.slothfs/manifest.xml''
                             then Some [\<lparr>Path = ''a'', Copyfile = [''./z''], Linkfile = []\<rparr>] else None),
         treeJson = (\<lambda>p. if p = ''/m/wd/.slothfs/tree.json'' then Tree []
                          else if p = ''/m/wd/a/.slothfs/tree.json'' then
                            Tree [\<lparr>Name = ''f1'', ID = ''787d767f94fd634ed29cd69ec9f93bab2b25f5d4'',
                                   Target = None\<rparr>]
                          else NoFile)\<rparr>,
      extIsDir = (\<lambda>p. True), extWritable = (\<lambda>p. False),
      rangeOrder = (\<lambda>ks. ks), xattr = (\<lambda>p. None)\<rparr>"


section \<open>What is at a place\<close>

text \<open>
  The kind of the entry at a place: a file, a link with its target, or a directory.
  \<open>noLeafBelow n d\<close>: no file and no link at or below \<open>d\<close>; \<open>pruned n p\<close>: \<open>p\<close> lies at or
  below a directory, not the root, that holds no file and no link at any depth.
\<close>

datatype kind = KFile | KLink string | KDir

fun kindOf :: "node \<Rightarrow> kind" where
  "kindOf File = KFile"
| "kindOf (Symlink t) = KLink t"
| "kindOf (Dirn chs) = KDir"














section \<open>The diff engine: which paths are reported\<close>

lemma set_changedLoop:
  "set (changedLoop old new) = {p. \<exists>i. (p, i) \<in> set new \<and> isChanged old p i}"
  by (induction new) (auto split: if_splits)

lemma isChanged_iff:
  "isChanged old P info \<longleftrightarrow>
     (map_of old P = None \<or>
      (\<not> isLink info \<and>
       (\<exists>o'. map_of old P = Some o' \<and>
          (sha1 o' = None \<or> sha1 info = None \<or> sha1 o' \<noteq> sha1 info))))"
  by (cases "map_of old P"; cases "sha1 info"; cases "sha1 (the (map_of old P))")
     (auto simp: isChanged_def)

text \<open>
  C1. For file maps \<open>old\<close> and \<open>new\<close> (the keys of a Go map are distinct), a path \<open>P\<close>
  is in the list \<open>changedFiles\<close> returns iff \<open>P\<close> is a key of \<open>new\<close> and either \<open>P\<close> is
  absent from \<open>old\<close>, or \<open>new[P]\<close> is not a link and one of the two fingerprints is absent
  or the two fingerprints differ.
\<close>

theorem changedFiles_reports_iff:
  assumes "distinct (map fst new)"
  shows "P \<in> set (changedFiles old new) \<longleftrightarrow>
     (\<exists>info. map_of new P = Some info \<and>
        (map_of old P = None \<or>
         (\<not> isLink info \<and>
          (\<exists>o'. map_of old P = Some o' \<and>
             (sha1 o' = None \<or> sha1 info = None \<or> sha1 o' \<noteq> sha1 info)))))"
proof -
  have "P \<in> set (changedFiles old new) \<longleftrightarrow>
      (\<exists>info. (P, info) \<in> set new \<and> isChanged old P info)"
    by (simp add: changedFiles_def set_changedLoop)
  also have "\<dots> \<longleftrightarrow> (\<exists>info. map_of new P = Some info \<and> isChanged old P info)"
    using assms by (metis map_of_eq_Some_iff)
  finally show ?thesis unfolding isChanged_iff .
qed

theorem changedFiles_reports_iff_witness:
  "distinct (map fst [(''f'', \<lparr>sha1 = Some [1], isLink = False\<rparr>),
                      (''g'', \<lparr>sha1 = Some [2], isLink = False\<rparr>)]) \<and>
   ''f'' \<in> set (changedFiles [(''f'', \<lparr>sha1 = Some [7], isLink = False\<rparr>),
                               (''g'', \<lparr>sha1 = Some [2], isLink = False\<rparr>)]
                    [(''f'', \<lparr>sha1 = Some [1], isLink = False\<rparr>),
                     (''g'', \<lparr>sha1 = Some [2], isLink = False\<rparr>)]) \<and>
   ''g'' \<notin> set (changedFiles [(''f'', \<lparr>sha1 = Some [7], isLink = False\<rparr>),
                               (''g'', \<lparr>sha1 = Some [2], isLink = False\<rparr>)]
                    [(''f'', \<lparr>sha1 = Some [1], isLink = False\<rparr>),
                     (''g'', \<lparr>sha1 = Some [2], isLink = False\<rparr>)])"
proof -
  let ?old = "[(''f'', \<lparr>sha1 = Some [7::8 word], isLink = False\<rparr>),
               (''g'', \<lparr>sha1 = Some [2], isLink = False\<rparr>)]"
  let ?new = "[(''f'', \<lparr>sha1 = Some [1::8 word], isLink = False\<rparr>),
               (''g'', \<lparr>sha1 = Some [2], isLink = False\<rparr>)]"
  have d: "distinct (map fst ?new)" by simp
  have f: "''f'' \<in> set (changedFiles ?old ?new)"
    using changedFiles_reports_iff [OF d, of "''f''" ?old] by simp
  have g: "''g'' \<notin> set (changedFiles ?old ?new)"
    using changedFiles_reports_iff [OF d, of "''g''" ?old] by simp
  from d f g show ?thesis by blast
qed

text \<open>
  C2. The claim is that no path whose new entry is a link is ever in the change list,
  also when the path is absent from \<open>old\<close>. The loop tests \<open>!ok\<close> and appends before
  it reaches the \<open>isLink\<close> test: on a cold checkout (\<open>old\<close> empty) a link of the new
  map is reported.
\<close>

theorem changedFiles_reports_new_link:
  "changedFiles [] [(''l'', \<lparr>sha1 = Some (replicate 20 0), isLink = True\<rparr>)] = [''l'']"
  by (simp add: changedFiles_def isChanged_def)

section \<open>Building the tree from a snapshot: errors\<close>

text \<open>
  C5. The claim is that a missing or unparseable \<open>tree.json\<close>, or a malformed id, is
  fatal at every nesting depth. At the root it is; below the root the error of the
  recursive call is dropped. Here the manifest of \<open>/m/ws\<close> has one project \<open>a\<close>, the
  root's \<open>tree.json\<close> is empty and \<open>/m/ws/a/.slothfs/tree.json\<close> does not exist:
  the builder returns a tree and no error.
\<close>

theorem repoTreeFromSlothFS_drops_nested_error:
  "treeJson
     \<lparr>manifestXml = (\<lambda>p. if p = ''/m/ws/.slothfs/manifest.xml''
                          then Some [\<lparr>Path = ''a'', Copyfile = [], Linkfile = []\<rparr>] else None),
      treeJson = (\<lambda>p. if p = ''/m/ws/.slothfs/tree.json'' then Tree [] else NoFile)\<rparr>
     ''/m/ws/a/.slothfs/tree.json'' = NoFile \<and>
   repoTreeFromSlothFS
     \<lparr>manifestXml = (\<lambda>p. if p = ''/m/ws/.slothfs/manifest.xml''
                          then Some [\<lparr>Path = ''a'', Copyfile = [], Linkfile = []\<rparr>] else None),
      treeJson = (\<lambda>p. if p = ''/m/ws/.slothfs/tree.json'' then Tree [] else NoFile)\<rparr>
     ''/m/ws'' = Inr (RepoTree [(''a'', RepoTree [] [])] [])"
  by code_simp


section \<open>Paths: joining a clean relative path\<close>

lemma append_le_append: "(pre :: 'a::linorder list) @ a \<le> pre @ b \<longleftrightarrow> a \<le> b"
  by (induction pre) auto

lemma sorted_map_append:
  "sorted (xs :: 'a::linorder list list) \<Longrightarrow> sorted (map ((@) pre) xs)"
  by (induction xs) (auto simp: append_le_append)

lemma splitSlash_ne: "splitSlash s \<noteq> []"
  by (induction s) (auto split: list.splits)

lemma splitSlash_append: "splitSlash (a @ sep # b) = splitSlash a @ splitSlash b"
  using splitSlash_ne by (induction a) (auto split: list.splits)

lemma joinSlash_splitSlash: "joinSlash (splitSlash s) = s"
proof (induction s)
  case Nil
  show ?case by simp
next
  case (Cons c s)
  show ?case
  proof (cases "c = sep")
    case True
    then show ?thesis
      using Cons splitSlash_ne[of s] by (cases "splitSlash s") auto
  next
    case False
    then show ?thesis
      using Cons splitSlash_ne[of s]
      by (cases "splitSlash s"; cases "tl (splitSlash s)") auto
  qed
qed

lemma cleanSegs_normal: "list_all normalSeg B \<Longrightarrow> cleanSegs r out B = rev out @ B"
  by (induction B arbitrary: out) (auto simp: normalSeg_def)

lemma cleanSegs_append:
  "list_all normalSeg B \<Longrightarrow> cleanSegs r out (A @ B) = cleanSegs r out A @ B"
proof (induction r out A rule: cleanSegs.induct)
  case (1 rooted out)
  then show ?case by (simp add: cleanSegs_normal)
next
  case (2 rooted out s ss)
  then show ?case by (auto split: list.splits)
qed

lemma joinSlash_append:
  "B \<noteq> [] \<Longrightarrow>
   joinSlash (A @ B) = (if A = [] then joinSlash B else joinSlash A @ sep # joinSlash B)"
  by (induction A rule: joinSlash.induct) (auto split: list.splits simp: neq_Nil_conv)

lemma Join2_cleanRel:
  assumes "cleanRel p"
  shows "Join [ro, p] = joinPrefix ro @ p"
proof -
  have pne: "p \<noteq> []"
    using assms by (auto simp: cleanRel_def normalSeg_def)
  have sne: "splitSlash p \<noteq> []"
    by (rule splitSlash_ne)
  show ?thesis
  proof (cases "ro = []")
    case True
    have "hd p \<noteq> sep"
      using assms pne by (cases p) (auto simp: cleanRel_def normalSeg_def)
    then show ?thesis
      using True pne assms sne
      by (simp add: Join_def joinPrefix_def Clean_def cleanRel_def cleanSegs_normal
          joinSlash_splitSlash split: list.splits)
  next
    case False
    then have h: "hd (ro @ sep # p) = hd ro" by simp
    show ?thesis
      using False assms sne unfolding Join_def joinPrefix_def
      by (simp add: Clean_def Let_def h cleanRel_def splitSlash_append cleanSegs_append
          joinSlash_append joinSlash_splitSlash split: list.splits)
  qed
qed

section \<open>The change list is sorted\<close>

lemma changedFiles_subset: "set (changedFiles old new) \<subseteq> fst ` set new"
  by (auto simp: changedFiles_def set_changedLoop intro: rev_image_eqI)

lemma changedFiles_join_sorted:
  assumes "list_all (\<lambda>(p, i). cleanRel p) new"
  shows "sorted (changedFiles old new) \<and> sorted (joinChanged ro (changedFiles old new))"
proof -
  have s: "sorted (changedFiles old new)"
    by (simp add: changedFiles_def)
  have "\<And>p. p \<in> set (changedFiles old new) \<Longrightarrow> cleanRel p"
    using assms changedFiles_subset[of old new] by (fastforce simp: list_all_iff)
  then have "joinChanged ro (changedFiles old new) = map ((@) (joinPrefix ro)) (changedFiles old new)"
    by (simp add: joinChanged_def Join2_cleanRel)
  with s show ?thesis
    by (simp add: sorted_map_append)
qed


section \<open>The link planner: the first pass\<close>

text \<open>
  C4. The claim is that a child \<open>K\<close> of the read-only root is recursed into whenever
  the writable side has a repository at \<open>K\<close>, whatever other repositories it has. The
  loop over \<open>allRW\<close> stops at the first key at or below \<open>K\<close>, and \<open>range\<close> over a Go
  map visits the keys in no fixed order. With repositories \<open>a\<close> and \<open>a/x\<close> in the
  writable directory and \<open>a\<close> (with a nested \<open>a/y\<close>) in the snapshot: when \<open>a/x\<close> is
  visited before \<open>a\<close> the child \<open>a\<close> is not recursed into and the pass creates
  nothing; when \<open>a\<close> comes first it recurses and links \<open>a/y\<close>.
\<close>

theorem createTreeLinks_depends_on_range_order:
  "''a'' \<in> set (map fst (allChildren (RepoTree [(''a'', RepoTree [(''x'', RepoTree [] [])] [])] []))) \<and>
   classify ''a'' ['''', ''a/x'', ''a''] = FoundCheckout \<and>
   classify ''a'' ['''', ''a'', ''a/x''] = FoundRecurse \<and>
   createTreeLinks
     \<lparr>mount = \<lparr>manifestXml = (\<lambda>p. None), treeJson = (\<lambda>p. NoFile)\<rparr>,
      extIsDir = (\<lambda>p. False), extWritable = (\<lambda>p. False), rangeOrder = rev, xattr = (\<lambda>p. None)\<rparr>
     (RepoTree [(''a'', RepoTree [(''y'', RepoTree [] [])] [])] [])
     (Some (RepoTree [(''a'', RepoTree [(''x'', RepoTree [] [])] [])] []))
     ''/m/ws'' ''/rw'' (Some [])
     (Dirn [(''a'', Dirn [(''.git'', Dirn [(''HEAD'', File)]),
                          (''x'', Dirn [(''.git'', Dirn [(''HEAD'', File)])])])])
   = (None, Dirn [(''a'', Dirn [(''.git'', Dirn [(''HEAD'', File)]),
                                (''x'', Dirn [(''.git'', Dirn [(''HEAD'', File)])])])]) \<and>
   createTreeLinks
     \<lparr>mount = \<lparr>manifestXml = (\<lambda>p. None), treeJson = (\<lambda>p. NoFile)\<rparr>,
      extIsDir = (\<lambda>p. False), extWritable = (\<lambda>p. False), rangeOrder = (\<lambda>ks. ks), xattr = (\<lambda>p. None)\<rparr>
     (RepoTree [(''a'', RepoTree [(''y'', RepoTree [] [])] [])] [])
     (Some (RepoTree [(''a'', RepoTree [(''x'', RepoTree [] [])] [])] []))
     ''/m/ws'' ''/rw'' (Some [])
     (Dirn [(''a'', Dirn [(''.git'', Dirn [(''HEAD'', File)]),
                          (''x'', Dirn [(''.git'', Dirn [(''HEAD'', File)])])])])
   = (None, Dirn [(''a'', Dirn [(''.git'', Dirn [(''HEAD'', File)]),
                                (''x'', Dirn [(''.git'', Dirn [(''HEAD'', File)])]),
                                (''y'', Symlink ''/m/ws/a/y'')])])"
  by code_simp

section \<open>The link cleaner: the workspace name\<close>

lemma lastOr_append: "lastOr (lastOr d xs) ys = lastOr d (xs @ ys)"
  by (simp add: lastOr_def)

lemma walk_prefix:
  "wprefix (fst (walk mnt dir p pos n st)) =
     lastOr (wprefix st) (filter (prefix mnt) (linkTargets n))"
  "wprefix (fst (walkEntries mnt dir p pos chs st)) =
     lastOr (wprefix st) (filter (prefix mnt) (linkTargets (Dirn chs)))"
proof (induction mnt dir p pos n st and mnt dir p pos chs st rule: walk_walkEntries.induct)
  case (1 mnt dir n pos st)
  then show ?case by (simp add: lastOr_def)
next
  case (2 mnt dir n pos target st)
  then show ?case by (simp add: lastOr_def)
next
  case (3 mnt dir n pos chs st)
  then show ?case by (cases "n = dir") (simp_all add: Let_def case_prod_beta)
next
  case (4 mnt dir n pos st)
  then show ?case by (simp add: lastOr_def)
next
  case (5 mnt dir n pos name ch rest st)
  obtain st1 r where w: "walk mnt dir (Join [n, name]) (pos @ [name]) ch st = (st1, r)"
    by (cases "walk mnt dir (Join [n, name]) (pos @ [name]) ch st")
  from 5(1) w have a: "wprefix st1 = lastOr (wprefix st) (filter (prefix mnt) (linkTargets ch))"
    by simp
  from 5(2)[OF refl w[symmetric]]
  have b: "wprefix (fst (walkEntries mnt dir n pos rest st1)) =
     lastOr (wprefix st1) (filter (prefix mnt) (linkTargets (Dirn rest)))" .
  show ?case
    using w a b by (simp add: Let_def case_prod_beta lastOr_append)
qed

text \<open>
  C6. For a directory \<open>dir\<close> that exists, \<open>clearLinks(mount, dir)\<close> returns without error
  the workspace name of the last link met in the walk whose target begins with the
  (cleaned) mount: that target without the prefix \<open>mount + "/"\<close>, up to the next slash. When
  no link of \<open>dir\<close> has such a target it returns the empty string.
\<close>

theorem clearLinks_returns_last_workspace:
  "fst (clearLinks mount0 dir (Some n)) =
     Inr (uptoSlash (TrimPrefix (lastInto (Clean mount0) n) (Clean mount0 @ ''/''))) \<and>
   (filter (prefix (Clean mount0)) (linkTargets n) = [] \<longrightarrow>
      fst (clearLinks mount0 dir (Some n)) = Inr [])"
proof -
  have a: "fst (clearLinks mount0 dir (Some n)) =
      Inr (uptoSlash (TrimPrefix (lastInto (Clean mount0) n) (Clean mount0 @ ''/'')))"
    using walk_prefix(1)[of "Clean mount0" dir dir "[]" n "\<lparr>wprefix = [], wdirs = []\<rparr>"]
    by (simp add: clearLinks_def Let_def workspaceName_def sep_def case_prod_beta lastInto_def)
  moreover have "filter (prefix (Clean mount0)) (linkTargets n) = [] \<Longrightarrow>
      lastInto (Clean mount0) n = []"
    by (simp add: lastInto_def lastOr_def)
  ultimately show ?thesis
    by (auto simp: TrimPrefix_def uptoSlash_def)
qed

theorem clearLinks_returns_last_workspace_witness:
  "fst (clearLinks ''/m/'' ''/rw''
     (Some (Dirn [(''a'', Symlink ''/m/ws1/a''),
                  (''b'', Dirn [(''c'', Symlink ''/m/ws2/b/c'')]),
                  (''u'', Symlink ''/elsewhere/u'')]))) = Inr ''ws2'' \<and>
   filter (prefix (Clean ''/m/'')) (linkTargets (Dirn [(''u'', Symlink ''/elsewhere/u'')])) = [] \<and>
   fst (clearLinks ''/m/'' ''/rw'' (Some (Dirn [(''u'', Symlink ''/elsewhere/u'')]))) = Inr []"
proof -
  let ?n = "Dirn [(''a'', Symlink ''/m/ws1/a''),
                  (''b'', Dirn [(''c'', Symlink ''/m/ws2/b/c'')]),
                  (''u'', Symlink ''/elsewhere/u'')]"
  let ?u = "Dirn [(''u'', Symlink ''/elsewhere/u'')]"
  have e: "uptoSlash (TrimPrefix (lastInto (Clean ''/m/'') ?n) (Clean ''/m/'' @ ''/'')) = ''ws2''"
    by code_simp
  have h: "filter (prefix (Clean ''/m/'')) (linkTargets ?u) = []"
    by code_simp
  have "fst (clearLinks ''/m/'' ''/rw'' (Some ?n)) =
      Inr (uptoSlash (TrimPrefix (lastInto (Clean ''/m/'') ?n) (Clean ''/m/'' @ ''/'')))"
    using clearLinks_returns_last_workspace [of "''/m/''" "''/rw''" ?n] by (rule conjunct1)
  then have a: "fst (clearLinks ''/m/'' ''/rw'' (Some ?n)) = Inr ''ws2''"
    by (simp only: e)
  have "filter (prefix (Clean ''/m/'')) (linkTargets ?u) = [] \<longrightarrow>
      fst (clearLinks ''/m/'' ''/rw'' (Some ?u)) = Inr []"
    using clearLinks_returns_last_workspace [of "''/m/''" "''/rw''" ?u] by (rule conjunct2)
  with h have b: "fst (clearLinks ''/m/'' ''/rw'' (Some ?u)) = Inr []"
    by blast
  from a h b show ?thesis by blast
qed

section \<open>User content survives a checkout\<close>

lemma keepsLeaves_refl: "keepsLeaves n n" by (simp add: keepsLeaves_def)
lemma keepsLeaves_trans: "keepsLeaves a b \<Longrightarrow> keepsLeaves b c \<Longrightarrow> keepsLeaves a c"
  by (simp add: keepsLeaves_def)

lemma map_of_insertEntry: "map_of (insertEntry s v chs) = (map_of chs)(s \<mapsto> v)"
  by (induction chs) (auto simp: fun_eq_iff)

lemma lookup_leaf_nonempty: "isLeaf x \<Longrightarrow> lookupNode (Dirn chs) q = Some x \<Longrightarrow> q \<noteq> []"
  by (cases q) auto

lemma keepsLeaves_Dirn:
  assumes "\<And>k c. map_of chs k = Some c \<Longrightarrow> \<exists>c'. map_of chs' k = Some c' \<and> keepsLeaves c c'"
  shows "keepsLeaves (Dirn chs) (Dirn chs')"
  unfolding keepsLeaves_def
proof (intro allI impI)
  fix q x assume l: "lookupNode (Dirn chs) q = Some x" and lf: "isLeaf x"
  then obtain s ss where q: "q = s # ss" by (cases q) auto
  with l obtain c where c: "map_of chs s = Some c" "lookupNode c ss = Some x"
    by (auto split: option.splits)
  from assms[OF c(1)] obtain c' where "map_of chs' s = Some c'" "keepsLeaves c c'" by blast
  with c lf show "lookupNode (Dirn chs') q = Some x" by (simp add: q keepsLeaves_def)
qed

lemma mkdirAll_keeps: "mkdirAll w p n ps = Inr n' \<Longrightarrow> keepsLeaves n n'"
proof (induction w p n ps arbitrary: n' rule: mkdirAll.induct)
  case (5 w path chs s ss)
  show ?case
  proof (cases "map_of chs s")
    case None
    with 5(2) have n': "n' = Dirn (insertEntry s (newDirs ss) chs)" by simp
    show ?thesis unfolding n'
      by (rule keepsLeaves_Dirn) (use None in \<open>auto simp: map_of_insertEntry keepsLeaves_refl\<close>)
  next
    case (Some ch)
    with 5(2) obtain ch' where m: "mkdirAll w path ch ss = Inr ch'" and n': "n' = Dirn (insertEntry s ch' chs)"
      by (auto split: sum.splits)
    from 5(1)[OF Some m] have k: "keepsLeaves ch ch'" .
    show ?thesis unfolding n'
      by (rule keepsLeaves_Dirn) (use Some k in \<open>auto simp: map_of_insertEntry keepsLeaves_refl\<close>)
  qed
qed (auto simp: keepsLeaves_refl split: if_splits)

lemma symlinkAt_keeps: "symlinkAt w t p n ps = Inr n' \<Longrightarrow> keepsLeaves n n'"
proof (induction w t p n ps arbitrary: n' rule: symlinkAt.induct)
  case (4 w target path chs s)
  then have None: "map_of chs s = None" and n': "n' = Dirn (insertEntry s (Symlink target) chs)"
    by (auto split: option.splits)
  show ?case unfolding n'
    by (rule keepsLeaves_Dirn) (use None in \<open>auto simp: map_of_insertEntry keepsLeaves_refl\<close>)
next
  case (5 w target path chs s t ss)
  then obtain ch ch' where Some: "map_of chs s = Some ch" and m: "symlinkAt w target path ch (t # ss) = Inr ch'"
     and n': "n' = Dirn (insertEntry s ch' chs)"
    by (auto split: option.splits sum.splits)
  from 5(1)[OF Some m] have k: "keepsLeaves ch ch'" .
  show ?case unfolding n'
    by (rule keepsLeaves_Dirn) (use Some k in \<open>auto simp: map_of_insertEntry keepsLeaves_refl\<close>)
qed (auto simp: keepsLeaves_refl split: if_splits)

lemma linkInto_keeps: "keepsLeaves n (snd (linkInto w t d place n))"
  by (auto simp: linkInto_def doMkdirAll_def doSymlink_def keepsLeaves_refl
      split: sum.splits option.splits
      dest!: mkdirAll_keeps symlinkAt_keeps intro: keepsLeaves_trans)

lemma createTreeLinks_keeps:
  "keepsLeaves n (snd (createTreeLinks w ro rwo roRoot rwRoot place n))"
  "keepsLeaves n (snd (createTreeLinksLoop w chs rw allRW roRoot rwRoot place n))"
proof (induction w ro rwo roRoot rwRoot place n and w chs rw allRW roRoot rwRoot place n
    rule: createTreeLinks_createTreeLinksLoop.induct)
  case (1 w chs es rwo roRoot rwRoot place n)
  then show ?case by (auto simp: keepsLeaves_refl split: option.splits)
next
  case (2 w rw allRW roRoot rwRoot place n)
  then show ?case by (simp add: keepsLeaves_refl)
next
  case (3 w nm ch rest rw allRW roRoot rwRoot place n)
  show ?case
  proof (cases "classify nm allRW")
    case FoundRecurse
    let ?r = "createTreeLinks w ch (map_of (children rw) nm) (Join [roRoot, nm]) (Join [rwRoot, nm])
                  (Option.bind place (\<lambda>pos. placeOf pos [nm])) n"
    obtain e n1 where r: "?r = (e, n1)" by (cases ?r)
    from 3(1)[OF FoundRecurse] r have k1: "keepsLeaves n n1" by simp
    show ?thesis
    proof (cases e)
      case None
      from 3(2)[OF FoundRecurse r[symmetric] None] have "keepsLeaves n1 (snd (createTreeLinksLoop w rest rw allRW roRoot rwRoot place n1))" .
      with k1 show ?thesis using FoundRecurse r None by (auto intro: keepsLeaves_trans)
    next
      case (Some a)
      then show ?thesis using FoundRecurse r k1 by simp
    qed
  next
    case FoundCheckout
    from 3(3)[OF this] show ?thesis using FoundCheckout by simp
  next
    case FoundNothing
    let ?r = "linkInto w (Join [roRoot, nm]) (Join [rwRoot, nm])
                  (Option.bind place (\<lambda>pos. placeOf pos [nm])) n"
    obtain e n1 where r: "?r = (e, n1)" by (cases ?r)
    from linkInto_keeps[of n w "Join [roRoot, nm]" "Join [rwRoot, nm]" "Option.bind place (\<lambda>pos. placeOf pos [nm])"] r
    have k1: "keepsLeaves n n1" by simp
    show ?thesis
    proof (cases e)
      case None
      from 3(4)[OF FoundNothing r[symmetric] None] have "keepsLeaves n1 (snd (createTreeLinksLoop w rest rw allRW roRoot rwRoot place n1))" .
      with k1 show ?thesis using FoundNothing r None by (auto intro: keepsLeaves_trans)
    next
      case (Some a)
      then show ?thesis using FoundNothing r k1 by simp
    qed
  next
    case FoundError
    then show ?thesis by (simp add: keepsLeaves_refl)
  qed
qed


lemma symlinkEntries_keeps: "keepsLeaves n (snd (symlinkEntries w name es roRoot rwRoot n))"
proof (induction es arbitrary: n)
  case Nil
  show ?case by (simp add: keepsLeaves_refl)
next
  case (Cons e es)
  let ?r = "linkInto w (Join [roRoot, name, e]) (Join [rwRoot, name, e]) (placeOf [] [name, e]) n"
  obtain err n1 where r: "?r = (err, n1)" by (cases ?r)
  from linkInto_keeps[of n w "Join [roRoot, name, e]" "Join [rwRoot, name, e]" "placeOf [] [name, e]"] r
  have k1: "keepsLeaves n n1" by simp
  show ?case using r k1 Cons[of n1] by (cases err) (auto intro: keepsLeaves_trans)
qed

lemma symlinkRepo_keeps: "keepsLeaves n (snd (symlinkRepo w name child roRoot rwRoot n))"
  by (simp add: symlinkRepo_def keepsLeaves_refl symlinkEntries_keeps)

lemma symlinkRepos_keeps: "keepsLeaves n (snd (symlinkRepos w chs rwc roRoot rwRoot n))"
proof (induction chs arbitrary: n)
  case Nil
  show ?case by (simp add: keepsLeaves_refl)
next
  case (Cons c chs)
  obtain nm ch where c: "c = (nm, ch)" by (cases c)
  obtain err n1 where r: "symlinkRepo w nm ch roRoot rwRoot n = (err, n1)"
    by (cases "symlinkRepo w nm ch roRoot rwRoot n")
  from symlinkRepo_keeps[of n w nm ch roRoot rwRoot] r have k1: "keepsLeaves n n1" by simp
  show ?case using c r k1 Cons[of n1] Cons[of n] by (cases err) (auto intro: keepsLeaves_trans)
qed


















section \<open>The change list depends on the read-only side only\<close>

lemma targets_skeleton:
  "filter (prefix mnt) (linkTargets n) =
     (case skeleton mnt n of None \<Rightarrow> [] | Some s \<Rightarrow> linkTargets s)"
  "filter (prefix mnt) (linkTargets (Dirn chs)) = linkTargets (Dirn (skeletonEntries mnt chs))"
proof (induction mnt n and mnt chs rule: skeleton_skeletonEntries.induct)
  case (3 mnt chs)
  then show ?case by (cases "skeletonEntries mnt chs") auto
next
  case (5 mnt k c rest)
  then show ?case by (cases "skeleton mnt c") auto
qed auto

lemma lastInto_skeleton:
  "skeleton mnt n1 = skeleton mnt n2 \<Longrightarrow> lastInto mnt n1 = lastInto mnt n2"
  by (simp add: lastInto_def targets_skeleton(1))

lemma clearLinks_name:
  "fst (clearLinks (Dir (Clean ro)) rw (Some n)) =
     Inr (workspaceName (mountOf ro) (lastInto (mountOf ro) n))"
  using walk_prefix(1)[of "mountOf ro" rw rw "[]" n "\<lparr>wprefix = [], wdirs = []\<rparr>"]
  by (simp add: clearLinks_def Let_def case_prod_beta lastInto_def mountOf_def)

lemma Checkout_Inr:
  assumes "fst (Checkout w ro rw (Some n)) = Inr changed"
  shows "expectedChanges (mount w) ro (workspaceName (mountOf ro) (lastInto (mountOf ro) n))
           = Some changed"
proof -
  obtain res r1 where c: "clearLinks (Dir (Clean ro)) rw (Some n) = (res, r1)"
    by (cases "clearLinks (Dir (Clean ro)) rw (Some n)")
  with clearLinks_name[of ro rw n]
  have res: "res = Inr (workspaceName (mountOf ro) (lastInto (mountOf ro) n))" by simp
  show ?thesis
    using assms c res
    by (auto simp: Checkout_def Let_def expectedChanges_def oldInfosOf_def
        split: sum.splits option.splits prod.splits if_splits)
qed

text \<open>
  C10. As stated the claim fails: the prior snapshot is chosen by the writable directory.
  \<open>clearLinks\<close> takes for a link into the mount every link whose target begins with the
  path of the mount as a string, and derives the name of the prior workspace from the
  last one it meets. With the mount \<open>/m\<close>, the user's link \<open>z\<close> to \<open>/mfoo/x\<close> is such a
  link: two runs that differ in nothing else return \<open>[a/f2]\<close> and \<open>[a/f1, a/f2]\<close>.
\<close>

theorem Checkout_changes_depend_on_user_link:
  "fst (Checkout exWorld ''/m/ws'' ''/rw'' (Some (Dirn [(''a'', Symlink ''/m/old/a'')])))
     = Inr [''/m/ws/a/f2''] \<and>
   fst (Checkout exWorld ''/m/ws'' ''/rw''
          (Some (Dirn [(''a'', Symlink ''/m/old/a''), (''z'', Symlink ''/mfoo/x'')])))
     = Inr [''/m/ws/a/f1'', ''/m/ws/a/f2'']"
  by code_simp

text \<open>
  C10, amended. The change list of a successful \<open>Checkout(ro, rw)\<close> is \<open>expectedChanges\<close>,
  a function of the mount, of \<open>ro\<close> and of the name of the prior workspace; the name is
  read off the last link of \<open>rw\<close> whose target begins with the path of the mount.
  Two successful runs on the same mount and the same \<open>ro\<close> whose writable directories
  give the same name return the same list, whatever else the directories hold; that
  is so when the two have the same links with a target beginning with the path of the
  mount (\<open>lastInto_skeleton\<close>). The worlds of the two runs may differ in everything
  but the mount, the \<open>user.gitsha1\<close> attributes included: \<open>Checkout\<close> never reads them.
\<close>

theorem Checkout_changes_independent_of_rw:
  assumes "fst (Checkout w1 ro rw1 (Some n1)) = Inr c1"
    and "fst (Checkout w2 ro rw2 (Some n2)) = Inr c2"
    and "mount w1 = mount w2"
    and "workspaceName (mountOf ro) (lastInto (mountOf ro) n1) =
         workspaceName (mountOf ro) (lastInto (mountOf ro) n2)"
  shows "c1 = c2 \<and>
    expectedChanges (mount w1) ro (workspaceName (mountOf ro) (lastInto (mountOf ro) n1)) = Some c1"
  using Checkout_Inr[OF assms(1)] Checkout_Inr[OF assms(2)] assms(3) assms(4)
  by simp

theorem Checkout_changes_independent_of_rw_witness:
  "fst (Checkout exWorld ''/m/ws'' ''/rw'' (Some (Dirn [(''a'', Symlink ''/m/old/a'')])))
     = Inr [''/m/ws/a/f2''] \<and>
   fst (Checkout (exWorld\<lparr>extWritable := (\<lambda>p. True), xattr := (\<lambda>p. Some ''00'')\<rparr>) ''/m/ws'' ''/home/u/w''
          (Some (Dirn [(''a'', Symlink ''/m/old/a''), (''notes'', File),
                       (''tmp'', Dirn [(''t'', Symlink ''/elsewhere'')])])))
     = Inr [''/m/ws/a/f2''] \<and>
   mount exWorld = mount (exWorld\<lparr>extWritable := (\<lambda>p. True), xattr := (\<lambda>p. Some ''00'')\<rparr>) \<and>
   skeleton (mountOf ''/m/ws'') (Dirn [(''a'', Symlink ''/m/old/a'')]) =
   skeleton (mountOf ''/m/ws'')
     (Dirn [(''a'', Symlink ''/m/old/a''), (''notes'', File),
            (''tmp'', Dirn [(''t'', Symlink ''/elsewhere'')])]) \<and>
   workspaceName (mountOf ''/m/ws'') (lastInto (mountOf ''/m/ws'') (Dirn [(''a'', Symlink ''/m/old/a'')]))
     = ''old''"
proof -
  let ?w2 = "exWorld\<lparr>extWritable := (\<lambda>p. True), xattr := (\<lambda>p. Some ''00'')\<rparr>"
  let ?n1 = "Dirn [(''a'', Symlink ''/m/old/a'')]"
  let ?n2 = "Dirn [(''a'', Symlink ''/m/old/a''), (''notes'', File),
                   (''tmp'', Dirn [(''t'', Symlink ''/elsewhere'')])]"
  have h1: "fst (Checkout exWorld ''/m/ws'' ''/rw'' (Some ?n1)) = Inr [''/m/ws/a/f2'']"
    by code_simp
  have h2: "fst (Checkout ?w2 ''/m/ws'' ''/home/u/w'' (Some ?n2)) = Inr [''/m/ws/a/f2'']"
    by code_simp
  have h3: "mount exWorld = mount ?w2"
    by simp
  have h4: "skeleton (mountOf ''/m/ws'') ?n1 = skeleton (mountOf ''/m/ws'') ?n2"
    by code_simp
  have h5: "workspaceName (mountOf ''/m/ws'') (lastInto (mountOf ''/m/ws'') ?n1) =
      workspaceName (mountOf ''/m/ws'') (lastInto (mountOf ''/m/ws'') ?n2)"
    using lastInto_skeleton[OF h4] by simp
  have h6: "workspaceName (mountOf ''/m/ws'') (lastInto (mountOf ''/m/ws'') ?n1) = ''old''"
    by code_simp
  from Checkout_changes_independent_of_rw [OF h1 h2 h3 h5]
  have "[''/m/ws/a/f2''] = [''/m/ws/a/f2'']"
    by (rule conjunct1)
  with h1 h2 h3 h4 h6 show ?thesis
    by blast
qed

section \<open>The change list of a checkout is sorted\<close>

text \<open>
  C9. As stated the claim fails: the list is sorted before the paths are joined with
  \<open>ro\<close>, and \<open>filepath.Join\<close> cleans what it joins. The copyfile destination \<open>./z\<close> is a
  path of the new file map; \<open>./z\<close> sorts before \<open>a/f1\<close>, and \<open>/m/wd/z\<close> after
  \<open>/m/wd/a/f1\<close>.
\<close>

theorem Checkout_changed_list_unsorted:
  "fst (Checkout dotWorld ''/m/wd'' ''/rw'' (Some (Dirn []))) = Inr [''/m/wd/z'', ''/m/wd/a/f1''] \<and>
   \<not> sorted (projr (fst (Checkout dotWorld ''/m/wd'' ''/rw'' (Some (Dirn [])))))"
  by code_simp

text \<open>
  C9, amended. The relative paths \<open>changedFiles\<close> returns to \<open>Checkout\<close> are sorted
  bytewise (\<open>sort.Strings\<close>); when every path of the new file map is a clean relative
  path (slash-separated elements, none of them empty, \<open>.\<close> or \<open>..\<close>, as the names of a git
  tree are), the list a successful \<open>Checkout\<close> returns, each path joined with \<open>ro\<close>, is
  sorted too.
\<close>

theorem Checkout_changed_list_sorted:
  assumes "fst (Checkout w ro rw (Some n)) = Inr changed"
    and "repoTreeFromSlothFS (mount w) (Clean ro) = Inr roTree"
    and "list_all (\<lambda>(p, i). cleanRel p) (allFiles roTree)"
  shows "sorted changed \<and>
    (\<exists>old. changed = joinChanged (Clean ro) (changedFiles old (allFiles roTree)) \<and>
       sorted (changedFiles old (allFiles roTree)))"
proof -
  from Checkout_Inr[OF assms(1)] assms(2)
  obtain old where c: "changed = joinChanged (Clean ro) (changedFiles old (allFiles roTree))"
    by (auto simp: expectedChanges_def Let_def split: sum.splits if_splits)
  from changedFiles_join_sorted[OF assms(3), of old "Clean ro"] c show ?thesis by blast
qed

theorem Checkout_changed_list_sorted_witness:
  "fst (Checkout exWorld ''/m/ws'' ''/rw'' (Some (Dirn []))) = Inr [''/m/ws/a/f1'', ''/m/ws/a/f2''] \<and>
   repoTreeFromSlothFS (mount exWorld) (Clean ''/m/ws'') =
     Inr (projr (repoTreeFromSlothFS (mount exWorld) (Clean ''/m/ws''))) \<and>
   list_all (\<lambda>(p, i). cleanRel p) (allFiles (projr (repoTreeFromSlothFS (mount exWorld) (Clean ''/m/ws'')))) \<and>
   sorted [''/m/ws/a/f1'', ''/m/ws/a/f2'']"
proof -
  let ?t = "projr (repoTreeFromSlothFS (mount exWorld) (Clean ''/m/ws''))"
  have h1: "fst (Checkout exWorld ''/m/ws'' ''/rw'' (Some (Dirn []))) = Inr [''/m/ws/a/f1'', ''/m/ws/a/f2'']"
    by code_simp
  have "\<not> isl (repoTreeFromSlothFS (mount exWorld) (Clean ''/m/ws''))"
    by code_simp
  then have h2: "repoTreeFromSlothFS (mount exWorld) (Clean ''/m/ws'') = Inr ?t"
    by simp
  have h3: "list_all (\<lambda>(p, i). cleanRel p) (allFiles ?t)"
    by code_simp
  from Checkout_changed_list_sorted [OF h1 h2 h3] have "sorted [''/m/ws/a/f1'', ''/m/ws/a/f2'']"
    by (rule conjunct1)
  with h1 h2 h3 show ?thesis by blast
qed

section \<open>Coverage: what the writable directory reaches\<close>

lemma symlinkAt_creates:
  "symlinkAt w t p n pos = Inr n' \<Longrightarrow> noWriteOut w \<Longrightarrow> lookupNode n' pos = Some (Symlink t)"
proof (induction w t p n pos arbitrary: n' rule: symlinkAt.induct)
  case (4 w target path chs s)
  then show ?case by (auto simp: map_of_insertEntry split: option.splits)
next
  case (5 w target path chs s t ss)
  then show ?case by (auto simp: map_of_insertEntry split: option.splits sum.splits)
qed (auto split: if_splits simp: noWriteOut_def)

lemma linkInto_creates:
  assumes "linkInto w t d place n = (None, n')" and "noWriteOut w"
  shows "\<exists>pos. place = Some pos \<and> lookupNode n' pos = Some (Symlink t)"
  using assms
  by (auto simp: linkInto_def doMkdirAll_def doSymlink_def split: sum.splits option.splits
      dest: symlinkAt_creates)

lemma createTreeLinksLoop_links:
  assumes "createTreeLinksLoop w chs rw allRW roRoot rwRoot place n = (None, n')"
    and "noWriteOut w"
    and "(K, ch) \<in> set chs"
    and "classify K allRW = FoundNothing"
  shows "\<exists>pos pos'. place = Some pos \<and> placeOf pos [K] = Some pos' \<and>
           lookupNode n' pos' = Some (Symlink (Join [roRoot, K]))"
  using assms
proof (induction chs arbitrary: n)
  case Nil
  then show ?case by simp
next
  case (Cons c chs)
  obtain nm ch0 where c: "c = (nm, ch0)" by (cases c)
  show ?case
  proof (cases "(K, ch) = c")
    case True
    then have nm: "nm = K" using c by simp
    let ?r = "linkInto w (Join [roRoot, K]) (Join [rwRoot, K]) (Option.bind place (\<lambda>pos. placeOf pos [K])) n"
    obtain e n1 where r: "?r = (e, n1)" by (cases ?r)
    from Cons.prems(1) c nm Cons.prems(4) r have e: "e = None"
      and rest: "createTreeLinksLoop w chs rw allRW roRoot rwRoot place n1 = (None, n')"
      by (auto split: option.splits)
    from linkInto_creates[OF r[unfolded e] Cons.prems(2)]
    obtain pos' where p: "Option.bind place (\<lambda>pos. placeOf pos [K]) = Some pos'"
      and l: "lookupNode n1 pos' = Some (Symlink (Join [roRoot, K]))" by blast
    from createTreeLinks_keeps(2)[of n1 w chs rw allRW roRoot rwRoot place] rest
    have "keepsLeaves n1 n'" by simp
    with l have "lookupNode n' pos' = Some (Symlink (Join [roRoot, K]))"
      by (simp add: keepsLeaves_def)
    with p show ?thesis by (cases place) auto
  next
    case False
    with Cons.prems(3) have mem: "(K, ch) \<in> set chs" by auto
    from Cons.prems(1) c obtain n1 where
      rest: "createTreeLinksLoop w chs rw allRW roRoot rwRoot place n1 = (None, n')"
      by (auto split: found.splits option.splits prod.splits)
    from Cons.IH[OF rest Cons.prems(2) mem Cons.prems(4)] show ?thesis .
  qed
qed



lemma createLinks_links:
  assumes "createLinks w ro rwT roRoot rwRoot n = (None, n')"
    and "noWriteOut w"
    and "(K, ch) \<in> set (children ro)"
    and "classify K (rangeOrder w (map fst (allChildren rwT))) = FoundNothing"
  shows "\<exists>pos'. placeOf [] [K] = Some pos' \<and>
           lookupNode n' pos' = Some (Symlink (Join [roRoot, K]))"
proof -
  obtain chs es where ro: "ro = RepoTree chs es" by (cases ro)
  from assms(1) obtain n1 where
    a: "createTreeLinks w ro (Some rwT) roRoot rwRoot (Some []) n = (None, n1)" and
    b: "symlinkRepos w (allChildren ro) (map fst (allChildren rwT)) roRoot rwRoot n1 = (None, n')"
    by (auto simp: createLinks_def split: prod.splits option.splits)
  from a ro have "createTreeLinksLoop w chs rwT (rangeOrder w (map fst (allChildren rwT))) roRoot rwRoot (Some []) n = (None, n1)"
    by simp
  from createTreeLinksLoop_links[OF this assms(2) _ assms(4), of ch] assms(3) ro
  obtain pos' where p: "placeOf [] [K] = Some pos'" and l: "lookupNode n1 pos' = Some (Symlink (Join [roRoot, K]))"
    by auto
  from symlinkRepos_keeps[of n1 w "allChildren ro" "map fst (allChildren rwT)" roRoot rwRoot] b
  have "keepsLeaves n1 n'" by simp
  with l p show ?thesis by (auto simp: keepsLeaves_def)
qed












lemma placeOf_cleanRel: "cleanRel K \<Longrightarrow> placeOf [] [K] = Some (splitSlash K)"
  by (auto simp: placeOf_def Let_def cleanRel_def cleanSegs_normal list_all_iff normalSeg_def)









section \<open>The links a checkout creates point below the workspace\<close>
























section \<open>A second checkout\<close>
















section \<open>The cleaner removes the directories that hold nothing\<close>


lemma lookup_Dirn_empty: "lookupNode (Dirn []) q = (if q = [] then Some (Dirn []) else None)"
  by (cases q) auto











section \<open>The walk, taken apart\<close>


















section \<open>A tree is what is at its places\<close>




section \<open>What creating links adds\<close>








lemma lookupNode_Dirn_Cons:
  "lookupNode (Dirn chs) (k # q) = (case map_of chs k of None \<Rightarrow> None | Some c \<Rightarrow> lookupNode c q)"
  by simp


















section \<open>Cleaning what a checkout left\<close>





lemma leaf_kind: "isLeaf x \<longleftrightarrow> kindOf x \<noteq> KDir"
  by (cases x) simp_all




section \<open>Two checkouts in a row\<close>










section \<open>Coverage: the links of the first pass at any depth\<close>






section \<open>Coverage: places, targets and paths of clean names\<close>











section \<open>Coverage: the links of the second pass\<close>










section \<open>Coverage: what the two passes give\<close>






section \<open>Coverage: what a checkout links\<close>




end
